theory Spec2Isabelle
  imports Complex_Main "HOL-Library.AList" "HOL-Library.Char_ord" "HOL-Library.List_Lexorder"
    "HOL-Library.Product_Lexorder" "HOL-Library.Multiset"
begin

section \<open>Python floats\<close>

text \<open>
  A Python float is an IEEE 754 binary64 value: a finite number, an infinity or NaN. The two
  zeros are not told apart (they are equal and both falsy in Python). The finite values
  carry a real number; every arithmetic result is rounded to the nearest binary64 value,
  ties to the even significand, so that a result computed from binary64 operands is again
  a binary64 value.
\<close>

datatype pyfloat = Fin real | PInf | NInf | NaN

text \<open>Rounding to the nearest integer, ties to even.\<close>

definition rne :: "real \<Rightarrow> int" where
  "rne x = (let f = \<lfloor>x\<rfloor>; d = x - of_int f
            in if d < 1/2 then f else if 1/2 < d then f + 1 else if even f then f else f + 1)"

text \<open>
  The exponent of the unit in the last place of a non-zero real: 52 below its binary
  exponent, and \<open>-1074\<close> throughout the subnormal range.
\<close>

definition ulp_exp :: "real \<Rightarrow> int" where
  "ulp_exp x = max \<lfloor>log 2 \<bar>x\<bar>\<rfloor> (- 1022) - 52"

definition round64 :: "real \<Rightarrow> real" where
  "round64 x = (if x = 0 then 0 else of_int (rne (x / 2 powi ulp_exp x)) * 2 powi ulp_exp x)"

text \<open>
  The binary64 value of a real: a result that rounds to \<open>2 ^ 1024\<close> or beyond has
  overflowed and is an infinity.
\<close>

definition fl :: "real \<Rightarrow> pyfloat" where
  "fl x = (let y = round64 x
           in if 2 ^ 1024 \<le> y then PInf else if y \<le> - (2 ^ 1024) then NInf else Fin y)"

text \<open>\<^verbatim>\<open>bool(x)\<close>: a float is falsy exactly when it is zero; NaN is truthy.\<close>

fun truthy :: "pyfloat \<Rightarrow> bool" where
  "truthy (Fin x) = (x \<noteq> 0)"
| "truthy _ = True"

text \<open>
  The comparisons \<^verbatim>\<open><\<close> and \<^verbatim>\<open><=\<close> are exact, and false as soon as one side is
  NaN. The other values are ordered through \<open>float_key\<close>.
\<close>

fun float_key :: "pyfloat \<Rightarrow> int \<times> real" where
  "float_key (Fin x) = (0, x)"
| "float_key PInf = (1, 0)"
| "float_key NInf = (- 1, 0)"
| "float_key NaN = (0, 0)"

definition flt :: "pyfloat \<Rightarrow> pyfloat \<Rightarrow> bool" where
  "flt a b = (a \<noteq> NaN \<and> b \<noteq> NaN \<and> float_key a < float_key b)"

definition fle :: "pyfloat \<Rightarrow> pyfloat \<Rightarrow> bool" where
  "fle a b = (a \<noteq> NaN \<and> b \<noteq> NaN \<and> float_key a \<le> float_key b)"

datatype error =
  HTTPException nat string | ValidationError | TypeError | OverflowError | ZeroDivisionError

text \<open>
  \<^verbatim>\<open>x ** 2\<close>: the square, rounded; \<^verbatim>\<open>OverflowError\<close> when a finite \<open>x\<close> has a square
  beyond the binary64 range; a square that underflows is the rounded value, zero included;
  the square of an infinity is infinite and that of NaN is NaN. (Python calls the C
  library's \<^verbatim>\<open>pow\<close>, which is taken to round the square correctly.)
\<close>

fun float_pow2 :: "pyfloat \<Rightarrow> error + pyfloat" where
  "float_pow2 (Fin x) = (case fl (x * x) of Fin y \<Rightarrow> Inr (Fin y) | _ \<Rightarrow> Inl OverflowError)"
| "float_pow2 PInf = Inr PInf"
| "float_pow2 NInf = Inr PInf"
| "float_pow2 NaN = Inr NaN"

text \<open>
  \<^verbatim>\<open>a / b\<close>: \<^verbatim>\<open>ZeroDivisionError\<close> when \<open>b\<close> is zero, whatever \<open>a\<close> is; otherwise the
  IEEE quotient, which overflows to an infinity without an error.
\<close>

fun float_truediv :: "pyfloat \<Rightarrow> pyfloat \<Rightarrow> error + pyfloat" where
  "float_truediv a (Fin y) =
     (if y = 0 then Inl ZeroDivisionError
      else case a of
             Fin x \<Rightarrow> Inr (fl (x / y))
           | PInf \<Rightarrow> Inr (if 0 < y then PInf else NInf)
           | NInf \<Rightarrow> Inr (if 0 < y then NInf else PInf)
           | NaN \<Rightarrow> Inr NaN)"
| "float_truediv (Fin x) PInf = Inr (Fin 0)"
| "float_truediv (Fin x) NInf = Inr (Fin 0)"
| "float_truediv a b = Inr NaN"

section \<open>Data model of main.py\<close>

text \<open>
  The store is the file patients.JSON: a JSON object from patient id to a JSON object of
  fields. A stored record is modelled as a map from field name to JSON value, the store as
  an association list, because \<^verbatim>\<open>data.values()\<close> is read in insertion order by the sort.
  The values are the JSON scalars as Python's \<^verbatim>\<open>json\<close> module reads and writes them: a
  number without fraction and exponent is an \<^verbatim>\<open>int\<close>, any other number a float.
\<close>

datatype jval = JNull | JBool bool | JInt int | JFloat pyfloat | JStr string

type_synonym raw = "string \<rightharpoonup> jval"

type_synonym store = "(string \<times> raw) list"

datatype gender = Male | Female | Other

datatype response = JSONResponse string nat

text \<open>class Patient (lines 9-16). The field \<^verbatim>\<open>id\<close> is called \<open>pid\<close> here.\<close>

record Patient =
  pid :: string
  name :: string
  city :: string
  age :: int
  height :: pyfloat
  gender :: gender
  weight :: pyfloat

subsection \<open>Computed fields (lines 18-38)\<close>

text \<open>
  \<^verbatim>\<open>if self.weight and self.height: return self.weight / (self.height ** 2)\<close>. The
  power and the division can raise, and the exception leaves the property.
\<close>

definition bmi :: "Patient \<Rightarrow> error + pyfloat option" where
  "bmi p = (if truthy (weight p) \<and> truthy (height p)
            then (case float_pow2 (height p) of
                    Inl e \<Rightarrow> Inl e
                  | Inr s \<Rightarrow> (case float_truediv (weight p) s of
                               Inl e \<Rightarrow> Inl e
                             | Inr q \<Rightarrow> Inr (Some q)))
            else Inr None)"

text \<open>
  The body of \<^verbatim>\<open>bmi_category\<close> after \<^verbatim>\<open>bmi = self.bmi\<close> (lines 29-38). The literals
  \<^verbatim>\<open>18.5\<close>, \<^verbatim>\<open>24.9\<close> and \<^verbatim>\<open>29.9\<close> are the binary64 values nearest to these
  decimals; \<^verbatim>\<open>25\<close> is an integer, compared by value.
\<close>

definition category_of :: "pyfloat option \<Rightarrow> string" where
  "category_of b = (case b of
       None \<Rightarrow> ''Unknown''
     | Some x \<Rightarrow>
         if flt x (fl 18.5) then ''Underweight''
         else if fle (fl 18.5) x \<and> flt x (fl 24.9) then ''Normal weight''
         else if fle (Fin 25) x \<and> flt x (fl 29.9) then ''Overweight''
         else ''Obesity'')"

definition bmi_category :: "Patient \<Rightarrow> error + string" where
  "bmi_category p = (case bmi p of Inl e \<Rightarrow> Inl e | Inr b \<Rightarrow> Inr (category_of b))"

subsection \<open>Validation of a field mapping: \<^verbatim>\<open>Patient(**d)\<close>\<close>

text \<open>
  The classes are pydantic models (version 2, which \<^verbatim>\<open>computed_field\<close> and
  \<^verbatim>\<open>model_dump\<close> belong to), validated in the default lax mode with the default
  \<^verbatim>\<open>extra='ignore'\<close>: a \<^verbatim>\<open>str\<close> field takes a string only; an \<^verbatim>\<open>int\<close>
  field takes an integer, a boolean, a finite float without fractional part inside the
  64-bit range, or a numeric string; a \<^verbatim>\<open>float\<close> field takes a float (infinities and
  NaN included), an integer that converts to a finite float, a boolean or a numeric string;
  a \<^verbatim>\<open>Literal\<close> field takes exactly one of its values; no field of \<open>Patient\<close> takes
  \<^verbatim>\<open>None\<close>; keys that are not fields are ignored. How the library reads a numeric
  string is not part of this repository and is a parameter of the model.
\<close>

record lax =
  str_as_int :: "string \<Rightarrow> int option"
  str_as_float :: "string \<Rightarrow> pyfloat option"

fun str_validator :: "jval \<Rightarrow> string option" where
  "str_validator (JStr s) = Some s"
| "str_validator _ = None"

fun int_validator :: "lax \<Rightarrow> jval \<Rightarrow> int option" where
  "int_validator L (JInt i) = Some i"
| "int_validator L (JBool b) = Some (if b then 1 else 0)"
| "int_validator L (JFloat (Fin r)) =
     (if of_int \<lfloor>r\<rfloor> = r \<and> - (2 ^ 63) < r \<and> r < 2 ^ 63 then Some \<lfloor>r\<rfloor> else None)"
| "int_validator L (JFloat _) = None"
| "int_validator L (JStr s) = str_as_int L s"
| "int_validator L JNull = None"

fun float_validator :: "lax \<Rightarrow> jval \<Rightarrow> pyfloat option" where
  "float_validator L (JFloat x) = Some x"
| "float_validator L (JInt i) = (case fl (of_int i) of Fin r \<Rightarrow> Some (Fin r) | _ \<Rightarrow> None)"
| "float_validator L (JBool b) = Some (Fin (if b then 1 else 0))"
| "float_validator L (JStr s) = str_as_float L s"
| "float_validator L JNull = None"

fun gender_str :: "gender \<Rightarrow> string" where
  "gender_str Male = ''Male''"
| "gender_str Female = ''Female''"
| "gender_str Other = ''Other''"

fun literal_validator :: "jval \<Rightarrow> gender option" where
  "literal_validator (JStr s) =
     (if s = ''Male'' then Some Male
      else if s = ''Female'' then Some Female
      else if s = ''Other'' then Some Other
      else None)"
| "literal_validator _ = None"

text \<open>A required field: the key must be present and its value must validate.\<close>

definition required :: "raw \<Rightarrow> string \<Rightarrow> (jval \<Rightarrow> 'a option) \<Rightarrow> 'a option" where
  "required d k v = (case d k of None \<Rightarrow> None | Some j \<Rightarrow> v j)"

definition Patient_fields :: "lax \<Rightarrow> raw \<Rightarrow> Patient option" where
  "Patient_fields L d =
     Option.bind (required d ''id'' str_validator) (\<lambda>i.
     Option.bind (required d ''name'' str_validator) (\<lambda>n.
     Option.bind (required d ''city'' str_validator) (\<lambda>c.
     Option.bind (required d ''age'' (int_validator L)) (\<lambda>a.
     Option.bind (required d ''height'' (float_validator L)) (\<lambda>h.
     Option.bind (required d ''gender'' literal_validator) (\<lambda>g.
     Option.bind (required d ''weight'' (float_validator L)) (\<lambda>w.
       Some \<lparr>pid = i, name = n, city = c, age = a, height = h, gender = g, weight = w\<rparr>)))))))"

definition Patient_init :: "lax \<Rightarrow> raw \<Rightarrow> error + Patient" where
  "Patient_init L d = (case Patient_fields L d of None \<Rightarrow> Inl ValidationError | Some p \<Rightarrow> Inr p)"

subsection \<open>Serialisation: \<^verbatim>\<open>model_dump(exclude={'id'})\<close> (lines 93 and 113)\<close>

text \<open>
  \<^verbatim>\<open>model_dump\<close> writes every field and every \<^verbatim>\<open>@computed_field\<close> property of the
  model, here without \<^verbatim>\<open>id\<close>. The computed properties are evaluated at that moment, and
  an exception of a property leaves \<^verbatim>\<open>model_dump\<close>.
\<close>

definition bmi_json :: "pyfloat option \<Rightarrow> jval" where
  "bmi_json b = (case b of None \<Rightarrow> JNull | Some x \<Rightarrow> JFloat x)"

definition dump_fields :: "Patient \<Rightarrow> pyfloat option \<Rightarrow> string \<Rightarrow> raw" where
  "dump_fields p b c = map_of
     [(''name'', JStr (name p)),
      (''city'', JStr (city p)),
      (''age'', JInt (age p)),
      (''height'', JFloat (height p)),
      (''gender'', JStr (gender_str (gender p))),
      (''weight'', JFloat (weight p)),
      (''bmi'', bmi_json b),
      (''bmi_category'', JStr c)]"

definition model_dump_exclude_id :: "Patient \<Rightarrow> error + raw" where
  "model_dump_exclude_id p =
     (case bmi p of
        Inl e \<Rightarrow> Inl e
      | Inr b \<Rightarrow> (case bmi_category p of
                    Inl e \<Rightarrow> Inl e
                  | Inr c \<Rightarrow> Inr (dump_fields p b c)))"

subsection \<open>class PatientUpdate (lines 40-46)\<close>

text \<open>
  A pydantic object is its field values together with the set of fields that were given
  when it was built. Each field of the payload is therefore unset, set to \<^verbatim>\<open>None\<close>, or
  set to a value.
\<close>

datatype 'a field = Unset | Set "'a option"

record PatientUpdate =
  u_name :: "string field"
  u_city :: "string field"
  u_age :: "int field"
  u_height :: "pyfloat field"
  u_gender :: "gender field"
  u_weight :: "pyfloat field"

text \<open>
  Validation of a request body against the class. Every field is annotated
  \<^verbatim>\<open>Annotated[Optional[T], Field(description=..., example=...)]\<close>: the value may be
  \<^verbatim>\<open>None\<close>, and since no default is declared the key is required.
\<close>

fun optional :: "(jval \<Rightarrow> 'a option) \<Rightarrow> jval \<Rightarrow> 'a option option" where
  "optional v JNull = Some None"
| "optional v j = map_option Some (v j)"

definition PatientUpdate_fields :: "lax \<Rightarrow> raw \<Rightarrow> PatientUpdate option" where
  "PatientUpdate_fields L d =
     Option.bind (required d ''name'' (optional str_validator)) (\<lambda>n.
     Option.bind (required d ''city'' (optional str_validator)) (\<lambda>c.
     Option.bind (required d ''age'' (optional (int_validator L))) (\<lambda>a.
     Option.bind (required d ''height'' (optional (float_validator L))) (\<lambda>h.
     Option.bind (required d ''gender'' (optional literal_validator)) (\<lambda>g.
     Option.bind (required d ''weight'' (optional (float_validator L))) (\<lambda>w.
       Some \<lparr>u_name = Set n, u_city = Set c, u_age = Set a, u_height = Set h,
             u_gender = Set g, u_weight = Set w\<rparr>))))))"

definition PatientUpdate_init :: "lax \<Rightarrow> raw \<Rightarrow> error + PatientUpdate" where
  "PatientUpdate_init L d =
     (case PatientUpdate_fields L d of None \<Rightarrow> Inl ValidationError | Some u \<Rightarrow> Inr u)"

text \<open>\<^verbatim>\<open>model_dump(exclude_unset=True)\<close> (line 103): the fields that were set, in field order.\<close>

definition dump_field :: "string \<Rightarrow> ('a \<Rightarrow> jval) \<Rightarrow> 'a field \<Rightarrow> (string \<times> jval) list" where
  "dump_field k to_json f = (case f of
       Unset \<Rightarrow> []
     | Set None \<Rightarrow> [(k, JNull)]
     | Set (Some x) \<Rightarrow> [(k, to_json x)])"

definition model_dump_exclude_unset :: "PatientUpdate \<Rightarrow> (string \<times> jval) list" where
  "model_dump_exclude_unset u =
     dump_field ''name'' JStr (u_name u) @
     dump_field ''city'' JStr (u_city u) @
     dump_field ''age'' JInt (u_age u) @
     dump_field ''height'' JFloat (u_height u) @
     dump_field ''gender'' (\<lambda>g. JStr (gender_str g)) (u_gender u) @
     dump_field ''weight'' JFloat (u_weight u)"

section \<open>The operations\<close>

text \<open>
  Each operation reads the whole file, works on the loaded dictionary and writes the whole
  file back on its success path only. An operation takes the file's content and returns its
  answer together with the file's content afterwards. An exception that leaves the
  operation is its answer, and the file is then as it was.
\<close>

subsection \<open>create\_patiet (lines 86-96)\<close>

definition create_patiet :: "store \<Rightarrow> Patient \<Rightarrow> (error + response) \<times> store" where
  "create_patiet data patient =
     (if pid patient \<in> dom (map_of data)
      then (Inl (HTTPException 400 ''Patient ID already exists''), data)
      else (case model_dump_exclude_id patient of
              Inl e \<Rightarrow> (Inl e, data)
            | Inr d \<Rightarrow>
                (Inr (JSONResponse ''Patient created successfully'' 201),
                 AList.update (pid patient) d data)))"

subsection \<open>update\_patient (lines 98-118)\<close>

text \<open>The loop of lines 105-106, then line 108.\<close>

definition merge_fields :: "raw \<Rightarrow> (string \<times> jval) list \<Rightarrow> raw" where
  "merge_fields existing_patient updated_data =
     foldl (\<lambda>d (key, val). d(key \<mapsto> val)) existing_patient updated_data"

definition update_patient ::
    "lax \<Rightarrow> store \<Rightarrow> string \<Rightarrow> PatientUpdate \<Rightarrow> (error + response) \<times> store" where
  "update_patient L data patient_id patient_update =
     (case map_of data patient_id of
        None \<Rightarrow> (Inl (HTTPException 404 ''Patient not found''), data)
      | Some existing_patient \<Rightarrow>
          let updated_data = model_dump_exclude_unset patient_update;
              merged = (merge_fields existing_patient updated_data)(''id'' \<mapsto> JStr patient_id)
          in (case Patient_init L merged of
                Inl e \<Rightarrow> (Inl e, data)
              | Inr obj \<Rightarrow>
                  (case model_dump_exclude_id obj of
                     Inl e \<Rightarrow> (Inl e, data)
                   | Inr d \<Rightarrow>
                       (Inr (JSONResponse ''Patient updated successfully'' 200),
                        AList.update patient_id d data))))"

subsection \<open>sort\_patients (lines 74-84)\<close>

text \<open>
  \<^verbatim>\<open>x.get(sort_by)\<close> is \<^verbatim>\<open>None\<close> for a record without the key.
\<close>

definition get :: "raw \<Rightarrow> string \<Rightarrow> jval" where
  "get x k = (case x k of None \<Rightarrow> JNull | Some v \<Rightarrow> v)"

text \<open>
  Python compares numbers (integers, booleans and floats) among themselves by value, and
  strings among themselves; every other comparison of two JSON scalars raises
  \<^verbatim>\<open>TypeError\<close>. The numbers other than NaN are totally ordered, through \<open>num_of\<close>.
\<close>

fun is_number :: "jval \<Rightarrow> bool" where
  "is_number (JInt i) = True"
| "is_number (JFloat x) = True"
| "is_number (JBool b) = True"
| "is_number _ = False"

fun is_num :: "jval \<Rightarrow> bool" where
  "is_num (JFloat x) = (x \<noteq> NaN)"
| "is_num j = is_number j"

fun num_of :: "jval \<Rightarrow> int \<times> real" where
  "num_of (JInt i) = (0, of_int i)"
| "num_of (JFloat x) = float_key x"
| "num_of (JBool b) = (0, if b then 1 else 0)"
| "num_of _ = (0, 0)"

fun is_str :: "jval \<Rightarrow> bool" where
  "is_str (JStr s) = True"
| "is_str _ = False"

fun str_of :: "jval \<Rightarrow> string" where
  "str_of (JStr s) = s"
| "str_of _ = []"

text \<open>
  \<^verbatim>\<open>sorted(xs, key=..., reverse=...)\<close>: a stable sort; with \<^verbatim>\<open>reverse=True\<close> the
  list is reversed, sorted and reversed again, so that equal keys keep their order. A list
  of fewer than two elements is returned without any comparison. With two or more elements
  the sort compares keys until their order is determined, so it raises as soon as the keys
  are not all numbers or all strings. When the keys are numbers with a NaN among them no
  comparison raises, but \<^verbatim>\<open><\<close> is not an order on them and the list Python returns
  depends on the comparisons its algorithm happens to make: that list is the parameter
  \<open>unordered\<close>, of which nothing is assumed.
\<close>

definition stable_sort :: "('a \<Rightarrow> 'k::linorder) \<Rightarrow> bool \<Rightarrow> 'a list \<Rightarrow> 'a list" where
  "stable_sort key reverse xs =
     (if reverse then rev (sort_key key (rev xs)) else sort_key key xs)"

definition sorted_py ::
    "(bool \<Rightarrow> raw list \<Rightarrow> raw list) \<Rightarrow> (raw \<Rightarrow> jval) \<Rightarrow> bool \<Rightarrow> raw list \<Rightarrow> error + raw list" where
  "sorted_py unordered key reverse xs =
     (if length xs \<le> 1 then Inr xs
      else if list_all (\<lambda>x. is_num (key x)) xs
        then Inr (stable_sort (\<lambda>x. num_of (key x)) reverse xs)
      else if list_all (\<lambda>x. is_str (key x)) xs
        then Inr (stable_sort (\<lambda>x. str_of (key x)) reverse xs)
      else if list_all (\<lambda>x. is_number (key x)) xs
        then Inr (unordered reverse xs)
      else Inl TypeError)"

definition valid_fields :: "string list" where
  "valid_fields = [''height'', ''weight'', ''bmi'']"

definition invalid_sort_by :: string where
  "invalid_sort_by = ''Invalid sort_by field. Must be one of ['height', 'weight', 'bmi']''"

definition invalid_order :: string where
  "invalid_order = ''Invalid order. Must be 'asc' or 'desc'' @ [CHR 0x27]"

definition sort_patients ::
    "(bool \<Rightarrow> raw list \<Rightarrow> raw list) \<Rightarrow> store \<Rightarrow> string \<Rightarrow> string \<Rightarrow> error + raw list" where
  "sort_patients unordered data sort_by order =
     (if sort_by \<notin> set valid_fields
      then Inl (HTTPException 400 invalid_sort_by)
      else if order \<notin> set [''asc'', ''desc'']
      then Inl (HTTPException 400 invalid_order)
      else let sort_order = (if order = ''desc'' then True else False)
           in sorted_py unordered (\<lambda>x. get x sort_by) sort_order (map snd data))"

section \<open>Payload shapes, views and concrete inputs\<close>

text \<open>The six stored primary fields, in the order of the class.\<close>

definition primary_fields :: "string list" where
  "primary_fields = [''name'', ''city'', ''age'', ''height'', ''gender'', ''weight'']"

text \<open>A payload with no field set, and one that sets only \<^verbatim>\<open>weight\<close>, to a float.\<close>

definition no_fields :: PatientUpdate where
  "no_fields = \<lparr>u_name = Unset, u_city = Unset, u_age = Unset, u_height = Unset,
                 u_gender = Unset, u_weight = Unset\<rparr>"

definition weight_only :: "pyfloat \<Rightarrow> PatientUpdate" where
  "weight_only W = no_fields\<lparr>u_weight := Set (Some W)\<rparr>"

text \<open>The value stored for patient \<open>i\<close> under key \<open>k\<close>, if any.\<close>

definition stored_field :: "store \<Rightarrow> string \<Rightarrow> string \<Rightarrow> jval option" where
  "stored_field data i k = (case map_of data i of None \<Rightarrow> None | Some r \<Rightarrow> r k)"

text \<open>A stand-in for the list Python returns when a NaN is among the keys.\<close>

definition keep_order :: "bool \<Rightarrow> raw list \<Rightarrow> raw list" where
  "keep_order reverse xs = xs"

text \<open>A library that reads no string as a number.\<close>

definition lax0 :: lax where
  "lax0 = \<lparr>str_as_int = (\<lambda>s. None), str_as_float = (\<lambda>s. None)\<rparr>"

text \<open>
  The patient of the field examples in the class, and a second one. Their heights and
  weights are binary64 values.
\<close>

definition john :: Patient where
  "john = \<lparr>pid = ''P001'', name = ''John Doe'', city = ''New York'', age = 30,
            height = Fin 1.75, gender = Male, weight = Fin 70\<rparr>"

definition jane :: Patient where
  "jane = \<lparr>pid = ''P002'', name = ''Jane Roe'', city = ''Boston'', age = 41,
            height = Fin 2, gender = Female, weight = Fin 100\<rparr>"

text \<open>The body-mass index of John: the binary64 value nearest to 160/7.\<close>

definition john_bmi :: pyfloat where
  "john_bmi = Fin (6433713753386423 / 2 ^ 48)"

text \<open>The same for a weight of 80: the binary64 value nearest to 1280/49.\<close>

definition john80_bmi :: pyfloat where
  "john80_bmi = Fin (919101964769489 / 2 ^ 45)"

text \<open>What \<^verbatim>\<open>model_dump\<close> writes for John, for John at 80 kg and for Jane.\<close>

definition john_dump :: raw where
  "john_dump = dump_fields john (Some john_bmi) ''Normal weight''"

definition john80_dump :: raw where
  "john80_dump = dump_fields (john\<lparr>weight := Fin 80\<rparr>) (Some john80_bmi) ''Overweight''"

definition jane_dump :: raw where
  "jane_dump = dump_fields jane (Some (Fin 25)) ''Overweight''"

text \<open>A record of patients.JSON that holds the six primary fields and nothing else.\<close>

definition john_raw :: raw where
  "john_raw = map_of
     [(''name'', JStr ''John Doe''), (''city'', JStr ''New York''), (''age'', JInt 30),
      (''height'', JFloat (Fin 1.75)), (''gender'', JStr ''Male''), (''weight'', JInt 70)]"


definition tiny :: pyfloat where
  "tiny = Fin (1 / 2 ^ 600)"

text \<open>
  A request body for the update that gives all six keys, with \<^verbatim>\<open>weight\<close> null, and
  the payload object it validates to.
\<close>

definition null_weight_body :: raw where
  "null_weight_body = map_of
     [(''name'', JStr ''John Doe''), (''city'', JStr ''New York''), (''age'', JInt 31),
      (''height'', JFloat (Fin 1.75)), (''gender'', JStr ''Male''), (''weight'', JNull)]"

definition null_weight :: PatientUpdate where
  "null_weight = \<lparr>u_name = Set (Some ''John Doe''), u_city = Set (Some ''New York''),
                   u_age = Set (Some 31), u_height = Set (Some (Fin 1.75)),
                   u_gender = Set (Some Male), u_weight = Set None\<rparr>"

section \<open>Lemmas on rounding\<close>

text \<open>
  The unit in the last place from bounds on the magnitude, so that \<open>round64\<close> can be
  evaluated on given rationals.
\<close>

lemma powr_powi: "(2::real) powr real_of_int k = 2 powi k"
  by (simp add: powr_real_of_int')

lemma floor_log2_eq:
  assumes "2 powi e \<le> \<bar>x\<bar>" and "\<bar>x\<bar> < 2 powi (e + 1)"
  shows "\<lfloor>log 2 \<bar>x\<bar>\<rfloor> = e"
proof -
  have pos: "0 < \<bar>x\<bar>" using assms(1) by (smt (verit) zero_less_power_int)
  have "(2::real) powr real_of_int e \<le> \<bar>x\<bar> \<and> \<bar>x\<bar> < 2 powr real_of_int (e + 1)"
    using assms unfolding powr_powi by blast
  then show ?thesis
    using floor_log_eq_powr_iff [of "\<bar>x\<bar>" 2 e] pos by simp
qed

lemma ulp_exp_normal:
  assumes "2 powi e \<le> \<bar>x\<bar>" and "\<bar>x\<bar> < 2 powi (e + 1)" and "- 1022 \<le> e"
  shows "ulp_exp x = e - 52"
  using floor_log2_eq [OF assms(1,2)] assms(3) by (simp add: ulp_exp_def)

lemma ulp_exp_tiny:
  assumes "x \<noteq> 0" and "\<bar>x\<bar> < 2 powi (- 1022)"
  shows "ulp_exp x = - 1074"
proof -
  have "\<bar>x\<bar> < 2 powr real_of_int (- 1022)"
    using assms(2) unfolding powr_powi .
  then have "log 2 \<bar>x\<bar> < real_of_int (- 1022)"
    using assms(1) log_less_iff [of 2 "\<bar>x\<bar>" "real_of_int (- 1022)"] by simp
  then have "\<lfloor>log 2 \<bar>x\<bar>\<rfloor> < - 1022" by (simp only: floor_less_iff)
  then show ?thesis by (simp add: ulp_exp_def)
qed

lemma round64_normal:
  assumes "2 powi e \<le> \<bar>x\<bar>" and "\<bar>x\<bar> < 2 powi (e + 1)" and "- 1022 \<le> e"
  shows "round64 x = of_int (rne (x / 2 powi (e - 52))) * 2 powi (e - 52)"
proof -
  have "x \<noteq> 0" using assms(1) by (smt (verit) zero_less_power_int)
  then show ?thesis by (simp add: round64_def ulp_exp_normal [OF assms])
qed

lemma round64_tiny:
  assumes "\<bar>x\<bar> < 2 powi (- 1022)"
  shows "round64 x = of_int (rne (x / 2 powi (- 1074))) * 2 powi (- 1074)"
proof (cases "x = 0")
  case True
  then show ?thesis by (simp add: round64_def rne_def)
next
  case False
  then show ?thesis by (simp add: round64_def ulp_exp_tiny [OF False assms])
qed

lemma round64_18_5: "round64 18.5 = 18.5"
  using round64_normal [of 4 "18.5"] by (simp add: rne_def)

lemma round64_24_9: "round64 24.9 = 3504363460047667 / 2 ^ 47"
  using round64_normal [of 4 "24.9"] by (simp add: rne_def)

lemma round64_29_9: "round64 29.9 = 4208050901824307 / 2 ^ 47"
  using round64_normal [of 4 "29.9"] by (simp add: rne_def)

lemma fl_finite:
  assumes "round64 x = y" and "\<bar>y\<bar> < 2 ^ 1024"
  shows "fl x = Fin y"
  using assms by (auto simp: fl_def Let_def)

lemma fl_18_5: "fl 18.5 = Fin 18.5"
  by (rule fl_finite [OF round64_18_5]) simp

lemma fl_24_9: "fl 24.9 = Fin (3504363460047667 / 2 ^ 47)"
  by (rule fl_finite [OF round64_24_9]) simp

lemma fl_29_9: "fl 29.9 = Fin (4208050901824307 / 2 ^ 47)"
  by (rule fl_finite [OF round64_29_9]) simp

lemma round64_john_sq: "round64 (1.75 * 1.75) = 49 / 16"
  using round64_normal [of 1 "1.75 * 1.75"] by (simp add: rne_def)

lemma round64_john_q: "round64 (70 / (49 / 16)) = 6433713753386423 / 2 ^ 48"
  using round64_normal [of 4 "70 / (49 / 16)"] by (simp add: rne_def)

lemma round64_john80_q: "round64 (80 / (49 / 16)) = 919101964769489 / 2 ^ 45"
  using round64_normal [of 4 "80 / (49 / 16)"] by (simp add: rne_def)

lemma round64_4: "round64 (2 * 2) = 4"
  using round64_normal [of 2 "2 * 2"] by (simp add: rne_def)

lemma round64_25: "round64 (100 / 4) = 25"
  using round64_normal [of 4 "100 / 4"] by (simp add: rne_def)

lemma round64_70: "round64 (of_int 70) = 70"
  using round64_normal [of 6 "of_int 70"] by (simp add: rne_def)

lemma round64_tiny_sq: "round64 (1 / 2 ^ 600 * (1 / 2 ^ 600)) = 0"
  using round64_tiny [of "1 / 2 ^ 600 * (1 / 2 ^ 600)"] by (simp add: rne_def)


section \<open>The computed fields of the concrete patients\<close>

lemma flt_Fin [simp]: "flt (Fin a) (Fin b) \<longleftrightarrow> a < b"
  by (simp add: flt_def)

lemma fle_Fin [simp]: "fle (Fin a) (Fin b) \<longleftrightarrow> a \<le> b"
  by (simp add: fle_def)

lemma fl_49_16: "fl (49 / 16) = Fin (49 / 16)"
  using fl_finite [OF round64_john_sq] by simp

lemma fl_160_7: "fl (160 / 7) = john_bmi"
  using fl_finite [OF round64_john_q] by (simp add: john_bmi_def)

lemma fl_1280_49: "fl (1280 / 49) = john80_bmi"
  using fl_finite [OF round64_john80_q] by (simp add: john80_bmi_def)

lemma fl_4: "fl 4 = Fin 4"
  using fl_finite [OF round64_4] by simp

lemma fl_25: "fl 25 = Fin 25"
  using fl_finite [OF round64_25] by simp

lemma fl_70: "fl 70 = Fin 70"
  using fl_finite [OF round64_70] by simp

lemma fl_tiny_sq: "fl (1 / 2 ^ 600 * (1 / 2 ^ 600)) = Fin 0"
  by (rule fl_finite [OF round64_tiny_sq]) simp


lemma fl_37_2: "fl (37 / 2) = Fin (37 / 2)"
  using fl_18_5 by simp

lemma fl_249_10: "fl (249 / 10) = Fin (3504363460047667 / 2 ^ 47)"
  using fl_24_9 by simp

lemma fl_299_10: "fl (299 / 10) = Fin (4208050901824307 / 2 ^ 47)"
  using fl_29_9 by simp

lemma bmi_john: "bmi john = Inr (Some john_bmi)"
  by (simp add: bmi_def john_def fl_49_16 fl_160_7)

lemma bmi_john80: "bmi (john\<lparr>weight := Fin 80\<rparr>) = Inr (Some john80_bmi)"
  by (simp add: bmi_def john_def fl_49_16 fl_1280_49)

lemma bmi_jane: "bmi jane = Inr (Some (Fin 25))"
  by (simp add: bmi_def jane_def fl_4 fl_25)

lemma bmi_tiny: "bmi (john\<lparr>height := tiny\<rparr>) = Inl ZeroDivisionError"
  using fl_tiny_sq by (simp add: bmi_def john_def tiny_def)


lemma category_john: "category_of (Some john_bmi) = ''Normal weight''"
  by (simp add: category_of_def john_bmi_def fl_37_2 fl_249_10)

lemma category_john80: "category_of (Some john80_bmi) = ''Overweight''"
  by (simp add: category_of_def john80_bmi_def fl_37_2 fl_249_10 fl_299_10)

lemma category_25: "category_of (Some (Fin 25)) = ''Overweight''"
  by (simp add: category_of_def fl_37_2 fl_249_10 fl_299_10)

lemma dump_john: "model_dump_exclude_id john = Inr john_dump"
  by (simp add: model_dump_exclude_id_def bmi_category_def bmi_john category_john john_dump_def)

lemma dump_john80: "model_dump_exclude_id (john\<lparr>weight := Fin 80\<rparr>) = Inr john80_dump"
  by (simp add: model_dump_exclude_id_def bmi_category_def bmi_john80 category_john80
      john80_dump_def)

lemma dump_jane: "model_dump_exclude_id jane = Inr jane_dump"
  by (simp add: model_dump_exclude_id_def bmi_category_def bmi_jane category_25 jane_dump_def)

section \<open>Lemmas on validation and serialisation\<close>

lemma required_upd_same [simp]: "required (d(k \<mapsto> j)) k v = v j"
  by (simp add: required_def)

lemma required_upd_other [simp]: "k' \<noteq> k \<Longrightarrow> required (d(k \<mapsto> j)) k' v = required d k' v"
  by (simp add: required_def)

lemma literal_gender_str [simp]: "literal_validator (JStr (gender_str g)) = Some g"
  by (cases g) simp_all

lemma required_dump:
  "required (dump_fields p b c) ''name'' str_validator = Some (name p)"
  "required (dump_fields p b c) ''city'' str_validator = Some (city p)"
  "required (dump_fields p b c) ''age'' (int_validator L) = Some (age p)"
  "required (dump_fields p b c) ''height'' (float_validator L) = Some (height p)"
  "required (dump_fields p b c) ''gender'' literal_validator = Some (gender p)"
  "required (dump_fields p b c) ''weight'' (float_validator L) = Some (weight p)"
  by (simp_all add: required_def dump_fields_def del: literal_validator.simps)

text \<open>Re-validating a dump to which the id has been put back gives the object back.\<close>

lemma Patient_init_dump_fields:
  "Patient_init L ((dump_fields p b c)(''id'' \<mapsto> JStr i)) = Inr (p\<lparr>pid := i\<rparr>)"
  by (simp add: Patient_init_def Patient_fields_def required_dump)

lemma model_dump_Inr:
  "model_dump_exclude_id p = Inr d \<longleftrightarrow> (\<exists>b. bmi p = Inr b \<and> d = dump_fields p b (category_of b))"
  by (auto simp: model_dump_exclude_id_def bmi_category_def split: sum.splits)

lemma model_dump_Inl: "model_dump_exclude_id p = Inl e \<longleftrightarrow> bmi p = Inl e"
  by (auto simp: model_dump_exclude_id_def bmi_category_def split: sum.splits)

lemma Patient_init_dump:
  assumes "model_dump_exclude_id p = Inr d"
  shows "Patient_init L (d(''id'' \<mapsto> JStr i)) = Inr (p\<lparr>pid := i\<rparr>)"
  using assms by (auto simp: model_dump_Inr Patient_init_dump_fields)

lemma bmi_pid_irrelevant [simp]: "bmi (p\<lparr>pid := i\<rparr>) = bmi p"
  by (simp add: bmi_def cong: sum.case_cong)

lemma dump_pid_irrelevant [simp]:
  "model_dump_exclude_id (p\<lparr>pid := i\<rparr>) = model_dump_exclude_id p"
  by (simp add: model_dump_exclude_id_def bmi_category_def dump_fields_def cong: sum.case_cong)

lemma Patient_init_error: "Patient_init L d = Inl e \<Longrightarrow> e = ValidationError"
  by (auto simp: Patient_init_def split: option.splits)

lemma Patient_init_pid: "Patient_init L (d(''id'' \<mapsto> JStr i)) = Inr p \<Longrightarrow> pid p = i"
  by (auto simp: Patient_init_def Patient_fields_def split: option.splits Option.bind_splits)

lemma dump_fields_no_id: "dump_fields p b c ''id'' = None"
  by (simp add: dump_fields_def)

lemma dump_no_id: "model_dump_exclude_id p = Inr d \<Longrightarrow> d ''id'' = None"
  by (auto simp: model_dump_Inr dump_fields_no_id)

lemma dom_dump_fields:
  "dom (dump_fields p b c) =
     {''name'', ''city'', ''age'', ''height'', ''gender'', ''weight'', ''bmi'', ''bmi_category''}"
  by (auto simp: dump_fields_def split: if_splits)

lemma dump_fields_apply:
  "dump_fields p b c ''name'' = Some (JStr (name p))"
  "dump_fields p b c ''city'' = Some (JStr (city p))"
  "dump_fields p b c ''age'' = Some (JInt (age p))"
  "dump_fields p b c ''height'' = Some (JFloat (height p))"
  "dump_fields p b c ''gender'' = Some (JStr (gender_str (gender p)))"
  "dump_fields p b c ''weight'' = Some (JFloat (weight p))"
  "dump_fields p b c ''bmi'' = Some (bmi_json b)"
  "dump_fields p b c ''bmi_category'' = Some (JStr c)"
  by (simp_all add: dump_fields_def)

lemma Patient_init_weight:
  assumes "Patient_init L (r(''id'' \<mapsto> JStr i)) = Inr p"
  shows "Patient_init L (r(''weight'' \<mapsto> JFloat W, ''id'' \<mapsto> JStr i)) = Inr (p\<lparr>weight := W\<rparr>)"
  using assms
  by (auto simp: Patient_init_def Patient_fields_def split: option.splits Option.bind_splits)

lemma primary_fields_cases:
  assumes "f \<in> set primary_fields"
  shows "f = ''name'' \<or> f = ''city'' \<or> f = ''age'' \<or> f = ''height'' \<or> f = ''gender''
         \<or> f = ''weight''"
  using assms by (simp add: primary_fields_def)

text \<open>No primary field takes \<^verbatim>\<open>None\<close>.\<close>

lemma Patient_fields_null:
  "m ''name'' = Some JNull \<Longrightarrow> Patient_fields L (m(''id'' \<mapsto> JStr i)) = None"
  "m ''city'' = Some JNull \<Longrightarrow> Patient_fields L (m(''id'' \<mapsto> JStr i)) = None"
  "m ''age'' = Some JNull \<Longrightarrow> Patient_fields L (m(''id'' \<mapsto> JStr i)) = None"
  "m ''height'' = Some JNull \<Longrightarrow> Patient_fields L (m(''id'' \<mapsto> JStr i)) = None"
  "m ''gender'' = Some JNull \<Longrightarrow> Patient_fields L (m(''id'' \<mapsto> JStr i)) = None"
  "m ''weight'' = Some JNull \<Longrightarrow> Patient_fields L (m(''id'' \<mapsto> JStr i)) = None"
  by (simp_all add: Patient_fields_def required_def)

lemma null_field_fails:
  assumes "f \<in> set primary_fields" and "m f = Some JNull"
  shows "Patient_init L (m(''id'' \<mapsto> JStr i)) = Inl ValidationError"
proof -
  have "Patient_fields L (m(''id'' \<mapsto> JStr i)) = None"
    using primary_fields_cases [OF assms(1)] assms(2) Patient_fields_null [of m L i]
    by blast
  then show ?thesis by (simp add: Patient_init_def)
qed

lemma john_raw_validates:
  "Patient_init lax0 (john_raw(''id'' \<mapsto> JStr ''P001'')) = Inr john"
  by (simp add: Patient_init_def Patient_fields_def john_raw_def john_def required_def fl_70)

lemma dump_john_validates:
  "Patient_init lax0 (john_dump(''id'' \<mapsto> JStr ''P001'')) = Inr john"
  using Patient_init_dump [OF dump_john, of lax0 "''P001''"] by (simp add: john_def)

section \<open>Lemmas on the update payload and the merge loop\<close>

lemma PatientUpdate_init_Inr:
  assumes "PatientUpdate_init L d = Inr u"
  shows "\<exists>n c a h g w.
           required d ''name'' (optional str_validator) = Some n
         \<and> required d ''city'' (optional str_validator) = Some c
         \<and> required d ''age'' (optional (int_validator L)) = Some a
         \<and> required d ''height'' (optional (float_validator L)) = Some h
         \<and> required d ''gender'' (optional literal_validator) = Some g
         \<and> required d ''weight'' (optional (float_validator L)) = Some w
         \<and> u = \<lparr>u_name = Set n, u_city = Set c, u_age = Set a, u_height = Set h,
                 u_gender = Set g, u_weight = Set w\<rparr>"
proof -
  from assms obtain v where v: "PatientUpdate_fields L d = Some v" and "v = u"
    by (auto simp: PatientUpdate_init_def split: option.splits)
  then show ?thesis
    unfolding PatientUpdate_fields_def
    by (auto simp: Option.bind_eq_Some_conv)
qed

text \<open>A body that validates gives all six keys, so the payload object has every field set.\<close>

lemma PatientUpdate_init_all_keys:
  assumes "PatientUpdate_init L d = Inr u"
  shows "set primary_fields \<subseteq> dom d"
proof -
  have k: "\<And>k v x. required d k v = Some x \<Longrightarrow> k \<in> dom d"
    by (auto simp: required_def split: option.splits)
  from PatientUpdate_init_Inr [OF assms] show ?thesis
    unfolding primary_fields_def by (auto dest: k)
qed

lemma PatientUpdate_init_ignores_id:
  "PatientUpdate_init L (body(''id'' \<mapsto> x)) = PatientUpdate_init L body"
  by (simp add: PatientUpdate_init_def PatientUpdate_fields_def)

lemma required_null: "d k = Some JNull \<Longrightarrow> required d k (optional v) = Some None"
  by (simp add: required_def)

lemma dump_all_set:
  "model_dump_exclude_unset \<lparr>u_name = Set n, u_city = Set c, u_age = Set a, u_height = Set h,
       u_gender = Set g, u_weight = Set w\<rparr> =
     [(''name'', case n of None \<Rightarrow> JNull | Some x \<Rightarrow> JStr x),
      (''city'', case c of None \<Rightarrow> JNull | Some x \<Rightarrow> JStr x),
      (''age'', case a of None \<Rightarrow> JNull | Some x \<Rightarrow> JInt x),
      (''height'', case h of None \<Rightarrow> JNull | Some x \<Rightarrow> JFloat x),
      (''gender'', case g of None \<Rightarrow> JNull | Some x \<Rightarrow> JStr (gender_str x)),
      (''weight'', case w of None \<Rightarrow> JNull | Some x \<Rightarrow> JFloat x)]"
proof -
  have d: "\<And>k tj x. dump_field k tj (Set x) = [(k, case x of None \<Rightarrow> JNull | Some y \<Rightarrow> tj y)]"
    by (simp add: dump_field_def split: option.splits)
  show ?thesis by (simp add: model_dump_exclude_unset_def d)
qed

lemma null_counts_as_set:
  assumes "PatientUpdate_init L body = Inr u" and "f \<in> set primary_fields"
    and "body f = Some JNull"
  shows "map_of (model_dump_exclude_unset u) f = Some JNull"
proof -
  from assms(1) obtain n c a h g w where
    r: "required body ''name'' (optional str_validator) = Some n"
       "required body ''city'' (optional str_validator) = Some c"
       "required body ''age'' (optional (int_validator L)) = Some a"
       "required body ''height'' (optional (float_validator L)) = Some h"
       "required body ''gender'' (optional literal_validator) = Some g"
       "required body ''weight'' (optional (float_validator L)) = Some w"
    and u: "u = \<lparr>u_name = Set n, u_city = Set c, u_age = Set a, u_height = Set h,
                 u_gender = Set g, u_weight = Set w\<rparr>"
    using PatientUpdate_init_Inr by blast
  have n: "f = ''name'' \<Longrightarrow> n = None" using assms(3) r(1) by (simp add: required_null)
  have c: "f = ''city'' \<Longrightarrow> c = None" using assms(3) r(2) by (simp add: required_null)
  have a: "f = ''age'' \<Longrightarrow> a = None" using assms(3) r(3) by (simp add: required_null)
  have h: "f = ''height'' \<Longrightarrow> h = None" using assms(3) r(4) by (simp add: required_null)
  have g: "f = ''gender'' \<Longrightarrow> g = None" using assms(3) r(5) by (simp add: required_null)
  have w: "f = ''weight'' \<Longrightarrow> w = None" using assms(3) r(6) by (simp add: required_null)
  from primary_fields_cases [OF assms(2)] show ?thesis
    unfolding u dump_all_set
    by (elim disjE) (simp_all add: n c a h g w)
qed

lemma null_weight_body_validates: "PatientUpdate_init lax0 null_weight_body = Inr null_weight"
  by (simp add: PatientUpdate_init_def PatientUpdate_fields_def required_def
      null_weight_body_def null_weight_def lax0_def)

lemma merge_fields_append:
  "merge_fields r (xs @ ys) = merge_fields (merge_fields r xs) ys"
  by (simp add: merge_fields_def)

lemma merge_dump_field:
  "merge_fields r (dump_field k tj f) k' =
     (if k' = k
      then (case f of Unset \<Rightarrow> r k' | Set None \<Rightarrow> Some JNull | Set (Some x) \<Rightarrow> Some (tj x))
      else r k')"
  by (simp add: merge_fields_def dump_field_def split: field.splits option.splits)

lemma merge_no_fields: "merge_fields r (model_dump_exclude_unset no_fields) = r"
  by (simp add: model_dump_exclude_unset_def no_fields_def dump_field_def merge_fields_def)

lemma merge_weight_only:
  "merge_fields r (model_dump_exclude_unset (weight_only W)) = r(''weight'' \<mapsto> JFloat W)"
  by (simp add: model_dump_exclude_unset_def weight_only_def no_fields_def dump_field_def
      merge_fields_def)

text \<open>What the loop leaves under each key.\<close>

lemma merge_apply:
  "merge_fields r (model_dump_exclude_unset u) ''name'' =
     (case u_name u of Unset \<Rightarrow> r ''name'' | Set None \<Rightarrow> Some JNull | Set (Some x) \<Rightarrow> Some (JStr x))"
  "merge_fields r (model_dump_exclude_unset u) ''city'' =
     (case u_city u of Unset \<Rightarrow> r ''city'' | Set None \<Rightarrow> Some JNull | Set (Some x) \<Rightarrow> Some (JStr x))"
  "merge_fields r (model_dump_exclude_unset u) ''age'' =
     (case u_age u of Unset \<Rightarrow> r ''age'' | Set None \<Rightarrow> Some JNull | Set (Some x) \<Rightarrow> Some (JInt x))"
  "merge_fields r (model_dump_exclude_unset u) ''height'' =
     (case u_height u of Unset \<Rightarrow> r ''height'' | Set None \<Rightarrow> Some JNull
      | Set (Some x) \<Rightarrow> Some (JFloat x))"
  "merge_fields r (model_dump_exclude_unset u) ''gender'' =
     (case u_gender u of Unset \<Rightarrow> r ''gender'' | Set None \<Rightarrow> Some JNull
      | Set (Some x) \<Rightarrow> Some (JStr (gender_str x)))"
  "merge_fields r (model_dump_exclude_unset u) ''weight'' =
     (case u_weight u of Unset \<Rightarrow> r ''weight'' | Set None \<Rightarrow> Some JNull
      | Set (Some x) \<Rightarrow> Some (JFloat x))"
  by (simp_all add: model_dump_exclude_unset_def merge_fields_append merge_dump_field
      cong: field.case_cong)

lemma merge_apply_other:
  "k \<notin> set primary_fields \<Longrightarrow> merge_fields r (model_dump_exclude_unset u) k = r k"
  by (simp add: model_dump_exclude_unset_def merge_fields_append merge_dump_field
      primary_fields_def)

lemma map_of_dump_field:
  "map_of (dump_field k tj f) k' =
     (if k' = k
      then (case f of Unset \<Rightarrow> None | Set None \<Rightarrow> Some JNull | Set (Some x) \<Rightarrow> Some (tj x))
      else None)"
  by (simp add: dump_field_def split: field.splits option.splits)

lemma map_of_append_apply:
  "map_of (xs @ ys) k = (case map_of xs k of None \<Rightarrow> map_of ys k | Some v \<Rightarrow> Some v)"
  by (simp add: map_add_def split: option.splits)

lemma field_apply:
  "map_of (model_dump_exclude_unset u) ''name'' =
     (case u_name u of Unset \<Rightarrow> None | Set None \<Rightarrow> Some JNull | Set (Some x) \<Rightarrow> Some (JStr x))"
  "map_of (model_dump_exclude_unset u) ''city'' =
     (case u_city u of Unset \<Rightarrow> None | Set None \<Rightarrow> Some JNull | Set (Some x) \<Rightarrow> Some (JStr x))"
  "map_of (model_dump_exclude_unset u) ''age'' =
     (case u_age u of Unset \<Rightarrow> None | Set None \<Rightarrow> Some JNull | Set (Some x) \<Rightarrow> Some (JInt x))"
  "map_of (model_dump_exclude_unset u) ''height'' =
     (case u_height u of Unset \<Rightarrow> None | Set None \<Rightarrow> Some JNull
      | Set (Some x) \<Rightarrow> Some (JFloat x))"
  "map_of (model_dump_exclude_unset u) ''gender'' =
     (case u_gender u of Unset \<Rightarrow> None | Set None \<Rightarrow> Some JNull
      | Set (Some x) \<Rightarrow> Some (JStr (gender_str x)))"
  "map_of (model_dump_exclude_unset u) ''weight'' =
     (case u_weight u of Unset \<Rightarrow> None | Set None \<Rightarrow> Some JNull
      | Set (Some x) \<Rightarrow> Some (JFloat x))"
  unfolding model_dump_exclude_unset_def map_of_append_apply map_of_dump_field
  by (simp_all split: field.splits option.splits)

lemma field_apply_other:
  "k \<notin> set primary_fields \<Longrightarrow> map_of (model_dump_exclude_unset u) k = None"
  unfolding model_dump_exclude_unset_def map_of_append_apply map_of_dump_field
  by (simp add: primary_fields_def)

text \<open>
  The loop overwrites exactly the keys the payload dump holds and leaves every other key of
  the stored record as it was.
\<close>

lemma merge_fields_apply:
  "merge_fields r (model_dump_exclude_unset u) k =
     (case map_of (model_dump_exclude_unset u) k of None \<Rightarrow> r k | Some v \<Rightarrow> Some v)"
proof (cases "k \<in> set primary_fields")
  case False
  then show ?thesis by (simp add: merge_apply_other field_apply_other)
next
  case True
  from primary_fields_cases [OF this] show ?thesis
    by (elim disjE) (simp_all add: merge_apply field_apply split: field.splits option.splits)
qed

section \<open>Lemmas on the operations\<close>

lemma update_patient_ok:
  assumes "map_of st i = Some r"
    and "Patient_init L ((merge_fields r (model_dump_exclude_unset u))(''id'' \<mapsto> JStr i)) = Inr obj"
    and "model_dump_exclude_id obj = Inr d"
  shows "update_patient L st i u =
           (Inr (JSONResponse ''Patient updated successfully'' 200), AList.update i d st)"
  using assms by (simp add: update_patient_def)

lemma update_patient_dump_fail:
  assumes "map_of st i = Some r"
    and "Patient_init L ((merge_fields r (model_dump_exclude_unset u))(''id'' \<mapsto> JStr i)) = Inr obj"
    and "model_dump_exclude_id obj = Inl e"
  shows "update_patient L st i u = (Inl e, st)"
  using assms by (simp add: update_patient_def)

lemma update_patient_fail:
  assumes "map_of st i = Some r"
    and "Patient_init L ((merge_fields r (model_dump_exclude_unset u))(''id'' \<mapsto> JStr i)) = Inl e"
  shows "update_patient L st i u = (Inl e, st)"
  using assms by (simp add: update_patient_def)

lemma update_patient_success:
  assumes "update_patient L st i u = (Inr resp, st')"
  shows "\<exists>q d. pid q = i \<and> model_dump_exclude_id q = Inr d \<and> st' = AList.update i d st"
proof (cases "map_of st i")
  case None
  with assms show ?thesis by (simp add: update_patient_def)
next
  case (Some r)
  let ?m = "(merge_fields r (model_dump_exclude_unset u))(''id'' \<mapsto> JStr i)"
  show ?thesis
  proof (cases "Patient_init L ?m")
    case (Inl e)
    with Some assms show ?thesis by (simp add: update_patient_def)
  next
    case q: (Inr q)
    then have i: "pid q = i" by (rule Patient_init_pid)
    show ?thesis
    proof (cases "model_dump_exclude_id q")
      case (Inl e)
      with Some q assms show ?thesis by (simp add: update_patient_def)
    next
      case (Inr d)
      with Some q assms have "st' = AList.update i d st" by (simp add: update_patient_def)
      with i Inr show ?thesis by blast
    qed
  qed
qed

lemma update_patient_failure_store:
  "fst (update_patient L st i u) = Inl e \<Longrightarrow> snd (update_patient L st i u) = st"
  by (auto simp: update_patient_def Let_def split: option.splits sum.splits)

lemma create_patiet_failure_store:
  "fst (create_patiet st p) = Inl e \<Longrightarrow> snd (create_patiet st p) = st"
  by (auto simp: create_patiet_def split: sum.splits if_splits)

lemma update_other_entries: "j \<noteq> i \<Longrightarrow> map_of (AList.update i v st) j = map_of st j"
  by (simp add: update_conv')

lemma create_john:
  "create_patiet [] john = (Inr (JSONResponse ''Patient created successfully'' 201),
                            [(''P001'', john_dump)])"
  by (simp add: create_patiet_def dump_john) (simp add: john_def)

lemma update_john_raw:
  "update_patient lax0 [(''P001'', john_raw)] ''P001'' (weight_only (Fin 80))
     = (Inr (JSONResponse ''Patient updated successfully'' 200), [(''P001'', john80_dump)])"
proof -
  have "map_of [(''P001'', john_raw)] ''P001'' = Some john_raw" by simp
  moreover have "Patient_init lax0
      ((merge_fields john_raw (model_dump_exclude_unset (weight_only (Fin 80))))
        (''id'' \<mapsto> JStr ''P001''))
        = Inr (john\<lparr>weight := Fin 80\<rparr>)"
    using Patient_init_weight [OF john_raw_validates] by (simp add: merge_weight_only)
  ultimately show ?thesis
    using update_patient_ok [of "[(''P001'', john_raw)]" "''P001''" john_raw lax0
        "weight_only (Fin 80)" "john\<lparr>weight := Fin 80\<rparr>" john80_dump] dump_john80
    by simp
qed

lemma stable_sort_mset: "mset (stable_sort key reverse xs) = mset xs"
  by (simp add: stable_sort_def)

lemma stable_sort_sorted:
  "\<not> reverse \<Longrightarrow> sorted (map key (stable_sort key reverse xs))"
  "reverse \<Longrightarrow> sorted (rev (map key (stable_sort key reverse xs)))"
  by (simp_all add: stable_sort_def rev_map)

lemma short_sorted: "length xs \<le> 1 \<Longrightarrow> sorted (map f xs) \<and> sorted (rev (map f xs))"
  by (cases xs) (simp_all)

lemma sorted_py_numeric:
  assumes "list_all (\<lambda>x. is_num (key x)) xs"
  shows "\<exists>res. sorted_py S key reverse xs = Inr res \<and> mset res = mset xs
           \<and> (\<not> reverse \<longrightarrow> sorted (map (\<lambda>x. num_of (key x)) res))
           \<and> (reverse \<longrightarrow> sorted (rev (map (\<lambda>x. num_of (key x)) res)))"
proof (cases "length xs \<le> 1")
  case True
  then show ?thesis
    using short_sorted [OF True, of "\<lambda>x. num_of (key x)"] by (simp add: sorted_py_def)
next
  case False
  with assms have "sorted_py S key reverse xs = Inr (stable_sort (\<lambda>x. num_of (key x)) reverse xs)"
    by (simp add: sorted_py_def)
  then show ?thesis
    using stable_sort_sorted [of reverse "\<lambda>x. num_of (key x)" xs]
    by (auto simp: stable_sort_mset)
qed

section \<open>What is persisted\<close>

text \<open>
  Claim C1, as the code has it. The record that create and update write for a patient is
  the dump of the validated object without its id: its keys are the six primary fields
  together with \<^verbatim>\<open>bmi\<close> and \<^verbatim>\<open>bmi_category\<close>, and never \<^verbatim>\<open>id\<close>. The two derived
  entries are computed from the height and weight written beside them, at the moment of the
  dump.
\<close>

theorem C1_persisted_fields:
  "(create_patiet st p = (Inr resp, st') \<longrightarrow>
      (\<exists>d. model_dump_exclude_id p = Inr d \<and> map_of st' (pid p) = Some d))
   \<and> (update_patient L su i u = (Inr respu, su') \<longrightarrow>
      (\<exists>q d. pid q = i \<and> model_dump_exclude_id q = Inr d \<and> map_of su' i = Some d))
   \<and> (model_dump_exclude_id q = Inr d \<longrightarrow>
        dom d = {''name'', ''city'', ''age'', ''height'', ''gender'', ''weight'', ''bmi'',
                 ''bmi_category''}
        \<and> d ''height'' = Some (JFloat (height q))
        \<and> d ''weight'' = Some (JFloat (weight q))
        \<and> (\<exists>b. bmi q = Inr b \<and> bmi_category q = Inr (category_of b)
               \<and> d ''bmi'' = Some (bmi_json b)
               \<and> d ''bmi_category'' = Some (JStr (category_of b))))"
proof -
  have "create_patiet st p = (Inr resp, st') \<longrightarrow>
      (\<exists>d. model_dump_exclude_id p = Inr d \<and> map_of st' (pid p) = Some d)"
    by (auto simp: create_patiet_def update_conv' split: if_splits sum.splits)
  moreover have "update_patient L su i u = (Inr respu, su') \<longrightarrow>
      (\<exists>q d. pid q = i \<and> model_dump_exclude_id q = Inr d \<and> map_of su' i = Some d)"
    using update_patient_success [of L su i u respu su'] by (fastforce simp: update_conv')
  moreover have "model_dump_exclude_id q = Inr d \<longrightarrow>
        dom d = {''name'', ''city'', ''age'', ''height'', ''gender'', ''weight'', ''bmi'',
                 ''bmi_category''}
        \<and> d ''height'' = Some (JFloat (height q))
        \<and> d ''weight'' = Some (JFloat (weight q))
        \<and> (\<exists>b. bmi q = Inr b \<and> bmi_category q = Inr (category_of b)
               \<and> d ''bmi'' = Some (bmi_json b)
               \<and> d ''bmi_category'' = Some (JStr (category_of b)))"
  proof
    assume "model_dump_exclude_id q = Inr d"
    then obtain b where b: "bmi q = Inr b" and d: "d = dump_fields q b (category_of b)"
      by (auto simp: model_dump_Inr)
    from b have "bmi_category q = Inr (category_of b)" by (simp add: bmi_category_def)
    with b show "dom d = {''name'', ''city'', ''age'', ''height'', ''gender'', ''weight'', ''bmi'',
                 ''bmi_category''}
        \<and> d ''height'' = Some (JFloat (height q))
        \<and> d ''weight'' = Some (JFloat (weight q))
        \<and> (\<exists>b. bmi q = Inr b \<and> bmi_category q = Inr (category_of b)
               \<and> d ''bmi'' = Some (bmi_json b)
               \<and> d ''bmi_category'' = Some (JStr (category_of b)))"
      unfolding d by (simp add: dom_dump_fields dump_fields_apply)
  qed
  ultimately show ?thesis by blast
qed

theorem C1_persisted_fields_witness:
  "create_patiet [] john = (Inr (JSONResponse ''Patient created successfully'' 201),
                            [(''P001'', john_dump)])
   \<and> model_dump_exclude_id john = Inr john_dump
   \<and> map_of [(''P001'', john_dump)] (pid john) = Some john_dump
   \<and> update_patient lax0 [(''P001'', john_raw)] ''P001'' (weight_only (Fin 80))
       = (Inr (JSONResponse ''Patient updated successfully'' 200), [(''P001'', john80_dump)])
   \<and> (\<exists>q d. pid q = ''P001'' \<and> model_dump_exclude_id q = Inr d
         \<and> map_of [(''P001'', john80_dump)] ''P001'' = Some d)
   \<and> john_dump ''bmi'' = Some (JFloat john_bmi)"
  using create_john update_john_raw dump_john bmi_john
    C1_persisted_fields [where st = "[]" and p = john
      and resp = "JSONResponse ''Patient created successfully'' 201"
      and st' = "[(''P001'', john_dump)]"
      and L = lax0 and su = "[(''P001'', john_raw)]" and i = "''P001''"
      and u = "weight_only (Fin 80)"
      and respu = "JSONResponse ''Patient updated successfully'' 200"
      and su' = "[(''P001'', john80_dump)]" and q = john and d = john_dump]
  by (simp add: bmi_json_def)

text \<open>
  Against claim C1 as stated (the store never holds the derived fields): after a create on
  the empty store the record of P001 holds \<^verbatim>\<open>bmi\<close> and \<^verbatim>\<open>bmi_category\<close>, and so does
  the record an update writes.
\<close>

theorem C1_counterexample:
  "stored_field (snd (create_patiet [] john)) ''P001'' ''bmi''
       = Some (JFloat (Fin (6433713753386423 / 2 ^ 48)))
   \<and> stored_field (snd (create_patiet [] john)) ''P001'' ''bmi_category''
       = Some (JStr ''Normal weight'')
   \<and> stored_field (snd (update_patient lax0 [(''P001'', john_raw)] ''P001''
         (weight_only (Fin 80)))) ''P001'' ''bmi''
       = Some (JFloat (Fin (919101964769489 / 2 ^ 45)))"
  by (simp add: create_john update_john_raw stored_field_def john_dump_def john80_dump_def
      dump_fields_apply bmi_json_def john_bmi_def john80_bmi_def)

section \<open>The computed fields\<close>

text \<open>
  Claim C2. The category is a five-way classification of the body-mass index: below 18.5
  it is "Underweight"; from 18.5 up to but excluding 24.9 it is "Normal weight"; from 25 up
  to but excluding 29.9 it is "Overweight"; every other value, that is the gap from 24.9 up
  to but excluding 25, everything from 29.9 on, and NaN, is "Obesity"; an absent index is
  "Unknown". The bounds are the float literals of the code. The property of the class
  applies this function to the patient's index.
\<close>

theorem C2_category_five_way:
  "(flt b (fl 18.5) \<longrightarrow> category_of (Some b) = ''Underweight'')
   \<and> (fle (fl 18.5) b \<and> flt b (fl 24.9) \<longrightarrow> category_of (Some b) = ''Normal weight'')
   \<and> (fle (Fin 25) b \<and> flt b (fl 29.9) \<longrightarrow> category_of (Some b) = ''Overweight'')
   \<and> ((fle (fl 24.9) b \<and> flt b (Fin 25)) \<or> fle (fl 29.9) b \<or> b = NaN \<longrightarrow>
        category_of (Some b) = ''Obesity'')
   \<and> category_of None = ''Unknown''
   \<and> bmi_category p = (case bmi p of Inl e \<Rightarrow> Inl e | Inr x \<Rightarrow> Inr (category_of x))"
  by (cases b)
    (auto simp: category_of_def bmi_category_def flt_def fle_def fl_37_2 fl_249_10 fl_299_10)

theorem C2_category_five_way_witness:
  "category_of (Some (Fin 17)) = ''Underweight''
   \<and> category_of (Some (Fin 20)) = ''Normal weight''
   \<and> category_of (Some (Fin 27)) = ''Overweight''
   \<and> category_of (Some (Fin (399 / 16))) = ''Obesity''
   \<and> category_of (Some (Fin 31)) = ''Obesity''
   \<and> category_of (Some NaN) = ''Obesity''
   \<and> category_of None = ''Unknown''"
  using C2_category_five_way [of "Fin 17"] C2_category_five_way [of "Fin 20"]
    C2_category_five_way [of "Fin 27"] C2_category_five_way [of "Fin (399 / 16)"]
    C2_category_five_way [of "Fin 31"] C2_category_five_way [of NaN]
  by (simp add: fl_37_2 fl_249_10 fl_299_10 fle_def)




section \<open>The update\<close>

text \<open>
  Claim C4 says that any subset of the fields, the empty one included, may be supplied in
  an update. The class gives no field a default, so validation of a request body requires
  all six keys: a body that gives only \<^verbatim>\<open>weight\<close> is rejected, and so is the empty
  body. (Lemma \<open>merge_fields_apply\<close> is the other half of the claim: the loop overwrites
  exactly the fields that are set.)
\<close>

theorem C4_partial_payload_rejected:
  "PatientUpdate_init L (map_of [(''weight'', JFloat (Fin 80))]) = Inl ValidationError
   \<and> PatientUpdate_init L Map.empty = Inl ValidationError"
  by (simp add: PatientUpdate_init_def PatientUpdate_fields_def required_def)

text \<open>
  Claim C5. Let the stored record of patient \<open>i\<close> materialise as the patient \<open>p\<close>, and
  let the payload set only \<^verbatim>\<open>weight\<close>, to \<open>W\<close>. When the dump of \<open>p\<close> with weight \<open>W\<close>
  raises, the update raises the same and the store is as it was. Otherwise the update
  succeeds and stores that dump: read back it is \<open>p\<close> with only the weight changed and with
  id \<open>i\<close>, whatever \<^verbatim>\<open>id\<close> key the stored record carried; under \<^verbatim>\<open>name\<close>,
  \<^verbatim>\<open>city\<close>, \<^verbatim>\<open>age\<close>, \<^verbatim>\<open>height\<close> and \<^verbatim>\<open>gender\<close> it holds the values of \<open>p\<close> and
  under \<^verbatim>\<open>weight\<close> it holds \<open>W\<close>; and no other patient's record changes. An \<^verbatim>\<open>id\<close>
  key in a request body has no effect on the payload.
\<close>

theorem C5_weight_only:
  assumes "map_of st i = Some r" and "Patient_init L (r(''id'' \<mapsto> JStr i)) = Inr p"
  shows "(\<forall>e. model_dump_exclude_id (p\<lparr>weight := W\<rparr>) = Inl e \<longrightarrow>
            update_patient L st i (weight_only W) = (Inl e, st))
       \<and> (\<forall>d. model_dump_exclude_id (p\<lparr>weight := W\<rparr>) = Inr d \<longrightarrow>
            update_patient L st i (weight_only W) =
              (Inr (JSONResponse ''Patient updated successfully'' 200), AList.update i d st)
            \<and> Patient_init L (d(''id'' \<mapsto> JStr i)) = Inr (p\<lparr>weight := W\<rparr>)
            \<and> d ''name'' = Some (JStr (name p))
            \<and> d ''city'' = Some (JStr (city p))
            \<and> d ''age'' = Some (JInt (age p))
            \<and> d ''height'' = Some (JFloat (height p))
            \<and> d ''gender'' = Some (JStr (gender_str (gender p)))
            \<and> d ''weight'' = Some (JFloat W)
            \<and> (\<forall>j. j \<noteq> i \<longrightarrow> map_of (AList.update i d st) j = map_of st j))
       \<and> pid (p\<lparr>weight := W\<rparr>) = i
       \<and> PatientUpdate_init L (body(''id'' \<mapsto> x)) = PatientUpdate_init L body"
proof -
  have i: "pid p = i" using assms(2) by (rule Patient_init_pid)
  have m: "Patient_init L ((merge_fields r (model_dump_exclude_unset (weight_only W)))
          (''id'' \<mapsto> JStr i)) = Inr (p\<lparr>weight := W\<rparr>)"
    using Patient_init_weight [OF assms(2)] by (simp add: merge_weight_only)
  have 1: "\<forall>e. model_dump_exclude_id (p\<lparr>weight := W\<rparr>) = Inl e \<longrightarrow>
            update_patient L st i (weight_only W) = (Inl e, st)"
    using update_patient_dump_fail [OF assms(1) m] by blast
  have 2: "\<forall>d. model_dump_exclude_id (p\<lparr>weight := W\<rparr>) = Inr d \<longrightarrow>
            update_patient L st i (weight_only W) =
              (Inr (JSONResponse ''Patient updated successfully'' 200), AList.update i d st)
            \<and> Patient_init L (d(''id'' \<mapsto> JStr i)) = Inr (p\<lparr>weight := W\<rparr>)
            \<and> d ''name'' = Some (JStr (name p))
            \<and> d ''city'' = Some (JStr (city p))
            \<and> d ''age'' = Some (JInt (age p))
            \<and> d ''height'' = Some (JFloat (height p))
            \<and> d ''gender'' = Some (JStr (gender_str (gender p)))
            \<and> d ''weight'' = Some (JFloat W)
            \<and> (\<forall>j. j \<noteq> i \<longrightarrow> map_of (AList.update i d st) j = map_of st j)"
  proof (intro allI impI)
    fix d
    assume d: "model_dump_exclude_id (p\<lparr>weight := W\<rparr>) = Inr d"
    have a: "update_patient L st i (weight_only W) =
              (Inr (JSONResponse ''Patient updated successfully'' 200), AList.update i d st)"
      by (rule update_patient_ok [OF assms(1) m d])
    have b: "Patient_init L (d(''id'' \<mapsto> JStr i)) = Inr (p\<lparr>weight := W\<rparr>)"
      using Patient_init_dump [OF d, of L i] i by simp
    from d obtain bm where "d = dump_fields (p\<lparr>weight := W\<rparr>) bm (category_of bm)"
      by (auto simp: model_dump_Inr)
    then have c: "d ''name'' = Some (JStr (name p))" "d ''city'' = Some (JStr (city p))"
      "d ''age'' = Some (JInt (age p))" "d ''height'' = Some (JFloat (height p))"
      "d ''gender'' = Some (JStr (gender_str (gender p)))" "d ''weight'' = Some (JFloat W)"
      by (simp_all add: dump_fields_apply)
    from a b c show "update_patient L st i (weight_only W) =
              (Inr (JSONResponse ''Patient updated successfully'' 200), AList.update i d st)
            \<and> Patient_init L (d(''id'' \<mapsto> JStr i)) = Inr (p\<lparr>weight := W\<rparr>)
            \<and> d ''name'' = Some (JStr (name p))
            \<and> d ''city'' = Some (JStr (city p))
            \<and> d ''age'' = Some (JInt (age p))
            \<and> d ''height'' = Some (JFloat (height p))
            \<and> d ''gender'' = Some (JStr (gender_str (gender p)))
            \<and> d ''weight'' = Some (JFloat W)
            \<and> (\<forall>j. j \<noteq> i \<longrightarrow> map_of (AList.update i d st) j = map_of st j)"
      by (simp add: update_other_entries)
  qed
  from 1 2 i show ?thesis by (simp add: PatientUpdate_init_ignores_id)
qed

theorem C5_weight_only_witness:
  "map_of [(''P001'', john_raw(''id'' \<mapsto> JStr ''P999''))] ''P001''
     = Some (john_raw(''id'' \<mapsto> JStr ''P999''))
   \<and> Patient_init lax0 ((john_raw(''id'' \<mapsto> JStr ''P999''))(''id'' \<mapsto> JStr ''P001'')) = Inr john
   \<and> model_dump_exclude_id (john\<lparr>weight := Fin 80\<rparr>) = Inr john80_dump
   \<and> update_patient lax0 [(''P001'', john_raw(''id'' \<mapsto> JStr ''P999''))] ''P001''
        (weight_only (Fin 80))
       = (Inr (JSONResponse ''Patient updated successfully'' 200), [(''P001'', john80_dump)])
   \<and> pid (john\<lparr>weight := Fin 80\<rparr>) = ''P001''
   \<and> model_dump_exclude_id (john\<lparr>weight := Fin 0, height := tiny\<rparr>\<lparr>weight := Fin 70\<rparr>)
       = Inl ZeroDivisionError
   \<and> update_patient lax0 [(''P001'', (john_raw(''height'' \<mapsto> JFloat tiny))(''weight'' \<mapsto> JInt 0))]
        ''P001'' (weight_only (Fin 70))
       = (Inl ZeroDivisionError,
          [(''P001'', (john_raw(''height'' \<mapsto> JFloat tiny))(''weight'' \<mapsto> JInt 0))])"
proof -
  have h1: "map_of [(''P001'', john_raw(''id'' \<mapsto> JStr ''P999''))] ''P001''
     = Some (john_raw(''id'' \<mapsto> JStr ''P999''))" by simp
  have h2: "Patient_init lax0 ((john_raw(''id'' \<mapsto> JStr ''P999''))(''id'' \<mapsto> JStr ''P001''))
     = Inr john"
    using john_raw_validates by simp
  let ?r = "(john_raw(''height'' \<mapsto> JFloat tiny))(''weight'' \<mapsto> JInt 0)"
  have g1: "map_of [(''P001'', ?r)] ''P001'' = Some ?r" by simp
  have z: "fl 0 = Fin 0" by (simp add: fl_def round64_def)
  have g2: "Patient_init lax0 (?r(''id'' \<mapsto> JStr ''P001''))
      = Inr (john\<lparr>weight := Fin 0, height := tiny\<rparr>)"
    by (simp add: Patient_init_def Patient_fields_def john_raw_def john_def required_def z)
  have g3: "model_dump_exclude_id (john\<lparr>weight := Fin 0, height := tiny\<rparr>\<lparr>weight := Fin 70\<rparr>)
      = Inl ZeroDivisionError"
    using bmi_tiny by (simp add: model_dump_Inl john_def)
  have a: "update_patient lax0 [(''P001'', john_raw(''id'' \<mapsto> JStr ''P999''))] ''P001''
        (weight_only (Fin 80))
       = (Inr (JSONResponse ''Patient updated successfully'' 200), [(''P001'', john80_dump)])
     \<and> pid (john\<lparr>weight := Fin 80\<rparr>) = ''P001''"
    using dump_john80
      C5_weight_only [OF h1 h2, where W = "Fin 80" and body = Map.empty and x = JNull]
    by simp
  have b: "update_patient lax0 [(''P001'', ?r)] ''P001'' (weight_only (Fin 70))
       = (Inl ZeroDivisionError, [(''P001'', ?r)])"
    using g3 C5_weight_only [OF g1 g2, where W = "Fin 70" and body = Map.empty and x = JNull]
    by blast
  from h1 h2 dump_john80 a g3 b show ?thesis by blast
qed

section \<open>Sorting\<close>

text \<open>
  Claim C6, as the code has it. A field name outside height, weight, bmi, and then an order
  outside asc, desc, is answered with HTTP 400 whatever the store holds. Otherwise, when
  every stored record has a number under the field, the answer is the list of the stored
  records themselves (the mappings as persisted: not validated again, without id), a
  permutation of the store's values ordered by the stored value of the field, ascending for
  asc and descending for desc.
\<close>

theorem C6_sort:
  "(sort_by \<notin> set valid_fields \<longrightarrow>
      sort_patients S st sort_by order = Inl (HTTPException 400 invalid_sort_by))
   \<and> (sort_by \<in> set valid_fields \<and> order \<notin> {''asc'', ''desc''} \<longrightarrow>
      sort_patients S st sort_by order = Inl (HTTPException 400 invalid_order))
   \<and> (sort_by \<in> set valid_fields \<and> order \<in> {''asc'', ''desc''}
        \<and> list_all (\<lambda>x. is_num (get x sort_by)) (map snd st) \<longrightarrow>
      (\<exists>res. sort_patients S st sort_by order = Inr res
         \<and> mset res = mset (map snd st)
         \<and> (order = ''asc'' \<longrightarrow> sorted (map (\<lambda>x. num_of (get x sort_by)) res))
         \<and> (order = ''desc'' \<longrightarrow> sorted (rev (map (\<lambda>x. num_of (get x sort_by)) res)))))"
proof -
  have "sort_by \<in> set valid_fields \<and> order \<in> {''asc'', ''desc''}
        \<and> list_all (\<lambda>x. is_num (get x sort_by)) (map snd st) \<longrightarrow>
      (\<exists>res. sort_patients S st sort_by order = Inr res
         \<and> mset res = mset (map snd st)
         \<and> (order = ''asc'' \<longrightarrow> sorted (map (\<lambda>x. num_of (get x sort_by)) res))
         \<and> (order = ''desc'' \<longrightarrow> sorted (rev (map (\<lambda>x. num_of (get x sort_by)) res))))"
  proof
    assume a: "sort_by \<in> set valid_fields \<and> order \<in> {''asc'', ''desc''}
        \<and> list_all (\<lambda>x. is_num (get x sort_by)) (map snd st)"
    then have s: "sort_patients S st sort_by order =
        sorted_py S (\<lambda>x. get x sort_by) (order = ''desc'') (map snd st)"
      by (simp add: sort_patients_def)
    from a have "order = ''asc'' \<longleftrightarrow> \<not> order = ''desc''" by auto
    with a s sorted_py_numeric [of "\<lambda>x. get x sort_by" "map snd st" S "order = ''desc''"]
    show "\<exists>res. sort_patients S st sort_by order = Inr res
         \<and> mset res = mset (map snd st)
         \<and> (order = ''asc'' \<longrightarrow> sorted (map (\<lambda>x. num_of (get x sort_by)) res))
         \<and> (order = ''desc'' \<longrightarrow> sorted (rev (map (\<lambda>x. num_of (get x sort_by)) res)))"
      by auto
  qed
  then show ?thesis by (simp add: sort_patients_def)
qed

theorem C6_sort_witness:
  "sort_patients keep_order [] ''name'' ''asc'' = Inl (HTTPException 400 invalid_sort_by)
   \<and> sort_patients keep_order [] ''bmi'' ''up'' = Inl (HTTPException 400 invalid_order)
   \<and> (\<exists>res. sort_patients keep_order [(''P002'', jane_dump), (''P001'', john_dump)]
               ''weight'' ''asc'' = Inr res
         \<and> sorted (map (\<lambda>x. num_of (get x ''weight'')) res))
   \<and> (\<exists>res. sort_patients keep_order [(''P002'', jane_dump), (''P001'', john_dump)]
               ''bmi'' ''desc'' = Inr res
         \<and> sorted (rev (map (\<lambda>x. num_of (get x ''bmi'')) res)))"
proof -
  let ?st = "[(''P002'', jane_dump), (''P001'', john_dump)]"
  have f1: "''name'' \<notin> set valid_fields" by (simp add: valid_fields_def)
  have f2: "''bmi'' \<in> set valid_fields \<and> ''up'' \<notin> {''asc'', ''desc''}"
    by (simp add: valid_fields_def)
  have f3: "''weight'' \<in> set valid_fields \<and> ''asc'' \<in> {''asc'', ''desc''}
        \<and> list_all (\<lambda>x. is_num (get x ''weight'')) (map snd ?st)"
    by (simp add: valid_fields_def get_def john_dump_def jane_dump_def dump_fields_apply
        john_def jane_def)
  have f4: "''bmi'' \<in> set valid_fields \<and> ''desc'' \<in> {''asc'', ''desc''}
        \<and> list_all (\<lambda>x. is_num (get x ''bmi'')) (map snd ?st)"
    by (simp add: valid_fields_def get_def john_dump_def jane_dump_def dump_fields_apply
        bmi_json_def john_bmi_def)
  show ?thesis
    using f1 f2 f3 f4 C6_sort [of "''name''" keep_order "[]" "''asc''"]
      C6_sort [of "''bmi''" keep_order "[]" "''up''"]
      C6_sort [of "''weight''" keep_order ?st "''asc''"]
      C6_sort [of "''bmi''" keep_order ?st "''desc''"]
    by auto
qed

text \<open>
  Against claim C6 as stated (every valid field and direction gives the ordered, validated
  patients): two patients of height 0, both created through create, have a null
  \<^verbatim>\<open>bmi\<close>, and sorting them by \<^verbatim>\<open>bmi\<close> raises \<^verbatim>\<open>TypeError\<close>; and a stored record
  that holds the primary fields only is returned as it is stored, without derived fields.
\<close>

theorem C6_counterexample:
  "sort_patients keep_order
      (snd (create_patiet (snd (create_patiet [] (john\<lparr>height := Fin 0\<rparr>)))
         (jane\<lparr>height := Fin 0\<rparr>)))
      ''bmi'' ''asc'' = Inl TypeError
   \<and> sort_patients keep_order [(''P001'', john_raw)] ''height'' ''asc'' = Inr [john_raw]
   \<and> john_raw ''bmi'' = None"
proof -
  have b: "bmi (john\<lparr>height := Fin 0\<rparr>) = Inr None" "bmi (jane\<lparr>height := Fin 0\<rparr>) = Inr None"
    by (simp_all add: bmi_def)
  have d: "model_dump_exclude_id (john\<lparr>height := Fin 0\<rparr>)
             = Inr (dump_fields (john\<lparr>height := Fin 0\<rparr>) None ''Unknown'')"
    "model_dump_exclude_id (jane\<lparr>height := Fin 0\<rparr>)
             = Inr (dump_fields (jane\<lparr>height := Fin 0\<rparr>) None ''Unknown'')"
    by (simp_all add: model_dump_exclude_id_def bmi_category_def b category_of_def)
  show ?thesis
    by (simp add: sort_patients_def valid_fields_def sorted_py_def create_patiet_def d
        dump_fields_apply get_def bmi_json_def john_raw_def)
      (simp add: john_def jane_def)
qed

section \<open>Failing operations\<close>

text \<open>
  Claim C7. A create whose id is already in the store fails with HTTP 400 "Patient ID
  already exists" and leaves the store as it was; an update whose merged record fails
  validation fails with the validation error and leaves the store as it was; and in general
  a create or an update that fails returns the store unchanged.
\<close>

theorem C7_failure_leaves_store:
  "(pid p \<in> dom (map_of st) \<longrightarrow>
      create_patiet st p = (Inl (HTTPException 400 ''Patient ID already exists''), st))
   \<and> (fst (create_patiet st p) = Inl e \<longrightarrow> snd (create_patiet st p) = st)
   \<and> (map_of su i = Some r
        \<and> Patient_init L ((merge_fields r (model_dump_exclude_unset u))(''id'' \<mapsto> JStr i)) = Inl eu
      \<longrightarrow> update_patient L su i u = (Inl ValidationError, su))
   \<and> (fst (update_patient L su i u) = Inl ev \<longrightarrow> snd (update_patient L su i u) = su)"
proof -
  have "map_of su i = Some r
        \<and> Patient_init L ((merge_fields r (model_dump_exclude_unset u))(''id'' \<mapsto> JStr i)) = Inl eu
      \<longrightarrow> update_patient L su i u = (Inl ValidationError, su)"
    using update_patient_fail [of su i r L u eu] Patient_init_error [of L _ eu] by blast
  moreover have "fst (update_patient L su i u) = Inl ev \<longrightarrow> snd (update_patient L su i u) = su"
    using update_patient_failure_store [of L su i u ev] by blast
  moreover have "fst (create_patiet st p) = Inl e \<longrightarrow> snd (create_patiet st p) = st"
    using create_patiet_failure_store [of st p e] by blast
  ultimately show ?thesis by (simp add: create_patiet_def)
qed

theorem C7_failure_leaves_store_witness:
  "pid john \<in> dom (map_of [(''P001'', john_raw)])
   \<and> create_patiet [(''P001'', john_raw)] john
       = (Inl (HTTPException 400 ''Patient ID already exists''), [(''P001'', john_raw)])
   \<and> map_of [(''P001'', john_raw)] ''P001'' = Some john_raw
   \<and> Patient_init lax0 ((merge_fields john_raw
          (model_dump_exclude_unset (no_fields\<lparr>u_age := Set None\<rparr>)))(''id'' \<mapsto> JStr ''P001''))
       = Inl ValidationError
   \<and> update_patient lax0 [(''P001'', john_raw)] ''P001'' (no_fields\<lparr>u_age := Set None\<rparr>)
       = (Inl ValidationError, [(''P001'', john_raw)])"
proof -
  have h1: "pid john \<in> dom (map_of [(''P001'', john_raw)])" by (simp add: john_def)
  have h2: "map_of [(''P001'', john_raw)] ''P001'' = Some john_raw" by simp
  have "merge_fields john_raw (model_dump_exclude_unset (no_fields\<lparr>u_age := Set None\<rparr>)) ''age''
          = Some JNull"
    by (simp add: merge_apply no_fields_def)
  then have h3: "Patient_init lax0 ((merge_fields john_raw
          (model_dump_exclude_unset (no_fields\<lparr>u_age := Set None\<rparr>)))(''id'' \<mapsto> JStr ''P001''))
       = Inl ValidationError"
    by (simp add: Patient_init_def Patient_fields_null)
  show ?thesis
    using h1 h2 h3
      C7_failure_leaves_store [where p = john and st = "[(''P001'', john_raw)]"
        and su = "[(''P001'', john_raw)]" and i = "''P001''" and r = john_raw and L = lax0
        and u = "no_fields\<lparr>u_age := Set None\<rparr>" and eu = ValidationError]
    by simp
qed

section \<open>The empty payload and the round trip\<close>

text \<open>
  Claim C8, as the code has it. Let the stored record of patient \<open>i\<close> materialise as the
  patient \<open>p\<close>. When the dump of \<open>p\<close> raises, the update with no field set raises the same
  and the store is as it was. Otherwise the update succeeds and stores the dump of \<open>p\<close>,
  which materialises as \<open>p\<close> again, derived fields included. The stored mapping is
  unchanged whenever it already was the dump of some patient, as every record written by
  create and update is.
\<close>

theorem C8_empty_payload:
  assumes "map_of st i = Some r" and "Patient_init L (r(''id'' \<mapsto> JStr i)) = Inr p"
  shows "(\<forall>e. model_dump_exclude_id p = Inl e \<longrightarrow>
            update_patient L st i no_fields = (Inl e, st))
       \<and> (\<forall>d. model_dump_exclude_id p = Inr d \<longrightarrow>
            update_patient L st i no_fields =
              (Inr (JSONResponse ''Patient updated successfully'' 200), AList.update i d st)
            \<and> Patient_init L (d(''id'' \<mapsto> JStr i)) = Inr p)
       \<and> (\<forall>q. model_dump_exclude_id q = Inr r \<longrightarrow>
            update_patient L st i no_fields =
              (Inr (JSONResponse ''Patient updated successfully'' 200), st))"
proof -
  have i: "pid p = i" using assms(2) by (rule Patient_init_pid)
  have m: "Patient_init L ((merge_fields r (model_dump_exclude_unset no_fields))(''id'' \<mapsto> JStr i))
          = Inr p"
    using assms(2) by (simp add: merge_no_fields)
  have 1: "\<forall>e. model_dump_exclude_id p = Inl e \<longrightarrow>
            update_patient L st i no_fields = (Inl e, st)"
    using update_patient_dump_fail [OF assms(1) m] by blast
  have 2: "\<forall>d. model_dump_exclude_id p = Inr d \<longrightarrow>
            update_patient L st i no_fields =
              (Inr (JSONResponse ''Patient updated successfully'' 200), AList.update i d st)
            \<and> Patient_init L (d(''id'' \<mapsto> JStr i)) = Inr p"
  proof (intro allI impI)
    fix d
    assume d: "model_dump_exclude_id p = Inr d"
    have "Patient_init L (d(''id'' \<mapsto> JStr i)) = Inr p"
      using Patient_init_dump [OF d, of L i] i by simp
    with update_patient_ok [OF assms(1) m d]
    show "update_patient L st i no_fields =
              (Inr (JSONResponse ''Patient updated successfully'' 200), AList.update i d st)
            \<and> Patient_init L (d(''id'' \<mapsto> JStr i)) = Inr p"
      by simp
  qed
  have 3: "\<forall>q. model_dump_exclude_id q = Inr r \<longrightarrow>
            update_patient L st i no_fields =
              (Inr (JSONResponse ''Patient updated successfully'' 200), st)"
  proof (intro allI impI)
    fix q
    assume q: "model_dump_exclude_id q = Inr r"
    with assms(2) have "p = q\<lparr>pid := i\<rparr>" by (simp add: Patient_init_dump [OF q])
    with q have "model_dump_exclude_id p = Inr r" by simp
    with 2 assms(1) show "update_patient L st i no_fields =
              (Inr (JSONResponse ''Patient updated successfully'' 200), st)"
      by (simp add: update_triv)
  qed
  from 1 2 3 show ?thesis by blast
qed

theorem C8_empty_payload_witness:
  "map_of [(''P001'', john_dump)] ''P001'' = Some john_dump
   \<and> Patient_init lax0 (john_dump(''id'' \<mapsto> JStr ''P001'')) = Inr john
   \<and> model_dump_exclude_id john = Inr john_dump
   \<and> update_patient lax0 [(''P001'', john_dump)] ''P001'' no_fields
       = (Inr (JSONResponse ''Patient updated successfully'' 200), [(''P001'', john_dump)])"
proof -
  have h1: "map_of [(''P001'', john_dump)] ''P001'' = Some john_dump" by simp
  show ?thesis
    using h1 dump_john_validates dump_john C8_empty_payload [OF h1 dump_john_validates]
    by simp
qed

text \<open>
  Against claim C8 as stated (the persisted mapping of every stored record is unchanged): a
  stored record that holds the six primary fields only is rewritten by the update with no
  field set, and holds \<^verbatim>\<open>bmi\<close> afterwards.
\<close>

theorem C8_counterexample:
  "fst (update_patient lax0 [(''P001'', john_raw)] ''P001'' no_fields)
      = Inr (JSONResponse ''Patient updated successfully'' 200)
   \<and> stored_field [(''P001'', john_raw)] ''P001'' ''bmi'' = None
   \<and> stored_field (snd (update_patient lax0 [(''P001'', john_raw)] ''P001'' no_fields))
        ''P001'' ''bmi'' = Some (JFloat (Fin (6433713753386423 / 2 ^ 48)))
   \<and> snd (update_patient lax0 [(''P001'', john_raw)] ''P001'' no_fields) \<noteq> [(''P001'', john_raw)]"
proof -
  have u: "update_patient lax0 [(''P001'', john_raw)] ''P001'' no_fields
      = (Inr (JSONResponse ''Patient updated successfully'' 200), [(''P001'', john_dump)])"
    using update_patient_ok [of "[(''P001'', john_raw)]" "''P001''" john_raw lax0 no_fields john
        john_dump] john_raw_validates dump_john
    by (simp add: merge_no_fields)
  have a: "john_raw ''bmi'' = None" by (simp add: john_raw_def)
  have b: "john_dump ''bmi'' = Some (JFloat (Fin (6433713753386423 / 2 ^ 48)))"
    by (simp add: john_dump_def dump_fields_apply bmi_json_def john_bmi_def)
  from a b have "john_dump \<noteq> john_raw" by auto
  with u a b show ?thesis by (simp add: stored_field_def)
qed

text \<open>
  Claim C9, as the code has it. For a field mapping that validates to the patient \<open>p\<close>
  whose dump does not raise, the dump of \<open>p\<close> holds no \<^verbatim>\<open>id\<close>; validated again after the
  id has been put back, as the update does, it gives the same result as the first
  validation; and a record persisted under the patient's id and read back materialises as
  \<open>p\<close>. The derived entries of the dump are ignored by the validation.
\<close>

theorem C9_roundtrip:
  assumes "Patient_init L d = Inr p" and "model_dump_exclude_id p = Inr r"
  shows "Patient_init L (r(''id'' \<mapsto> JStr (pid p))) = Patient_init L d
       \<and> r ''id'' = None
       \<and> (case map_of (AList.update (pid p) r st) (pid p) of
             None \<Rightarrow> False
           | Some r' \<Rightarrow> Patient_init L (r'(''id'' \<mapsto> JStr (pid p))) = Inr p)"
  using assms Patient_init_dump [OF assms(2), of L "pid p"] dump_no_id [OF assms(2)]
  by (simp add: update_conv')

theorem C9_roundtrip_witness:
  "Patient_init lax0 (john_raw(''id'' \<mapsto> JStr ''P001'')) = Inr john
   \<and> model_dump_exclude_id john = Inr john_dump
   \<and> Patient_init lax0 (john_dump(''id'' \<mapsto> JStr (pid john)))
       = Patient_init lax0 (john_raw(''id'' \<mapsto> JStr ''P001''))"
  using john_raw_validates dump_john C9_roundtrip [OF john_raw_validates dump_john, of "[]"]
  by simp

text \<open>
  Against claim C9 as stated (the flattened mapping has the derived fields excluded and
  validates to the same patient): the dump of a validated patient holds
  \<^verbatim>\<open>bmi_category\<close>, and validated as it is, without the id, it is rejected; and a
  validated patient whose height has a square that rounds to zero cannot be flattened at
  all.
\<close>

theorem C9_counterexample:
  "Patient_init lax0 (john_raw(''id'' \<mapsto> JStr ''P001'')) = Inr john
   \<and> model_dump_exclude_id john = Inr john_dump
   \<and> Patient_init lax0 john_dump = Inl ValidationError
   \<and> john_dump ''bmi_category'' = Some (JStr ''Normal weight'')
   \<and> Patient_init lax0 (john_raw(''height'' \<mapsto> JFloat tiny, ''id'' \<mapsto> JStr ''P001''))
       = Inr (john\<lparr>height := tiny\<rparr>)
   \<and> model_dump_exclude_id (john\<lparr>height := tiny\<rparr>) = Inl ZeroDivisionError"
proof -
  have "Patient_init lax0 john_dump = Inl ValidationError"
    by (simp add: Patient_init_def Patient_fields_def required_def john_dump_def
        dump_fields_no_id)
  moreover have "john_dump ''bmi_category'' = Some (JStr ''Normal weight'')"
    by (simp add: john_dump_def dump_fields_apply)
  moreover have "Patient_init lax0 (john_raw(''height'' \<mapsto> JFloat tiny, ''id'' \<mapsto> JStr ''P001''))
       = Inr (john\<lparr>height := tiny\<rparr>)"
    by (simp add: Patient_init_def Patient_fields_def john_raw_def john_def required_def fl_70)
  moreover have "model_dump_exclude_id (john\<lparr>height := tiny\<rparr>) = Inl ZeroDivisionError"
    by (simp add: model_dump_Inl bmi_tiny)
  ultimately show ?thesis using john_raw_validates dump_john by simp
qed

section \<open>An explicit null\<close>

text \<open>
  Claim C10. When a request body that validates to the payload \<open>u\<close> gives a primary field
  as null, the field counts as set: the payload dump holds the null, the loop writes it over
  the stored value, the validation of the merged record fails, and the update answers with
  the validation error and leaves the store as it was.
\<close>

theorem C10_explicit_null:
  assumes "PatientUpdate_init L body = Inr u" and "f \<in> set primary_fields"
    and "body f = Some JNull" and "map_of st i = Some r"
  shows "map_of (model_dump_exclude_unset u) f = Some JNull
       \<and> merge_fields r (model_dump_exclude_unset u) f = Some JNull
       \<and> update_patient L st i u = (Inl ValidationError, st)"
proof -
  have 1: "map_of (model_dump_exclude_unset u) f = Some JNull"
    using assms(1-3) by (rule null_counts_as_set)
  then have 2: "merge_fields r (model_dump_exclude_unset u) f = Some JNull"
    by (simp add: merge_fields_apply)
  have "Patient_init L ((merge_fields r (model_dump_exclude_unset u))(''id'' \<mapsto> JStr i))
          = Inl ValidationError"
    using assms(2) 2 by (rule null_field_fails)
  then have "update_patient L st i u = (Inl ValidationError, st)"
    by (rule update_patient_fail [OF assms(4)])
  with 1 2 show ?thesis by blast
qed

theorem C10_explicit_null_witness:
  "PatientUpdate_init lax0 null_weight_body = Inr null_weight
   \<and> ''weight'' \<in> set primary_fields
   \<and> null_weight_body ''weight'' = Some JNull
   \<and> map_of [(''P001'', john_raw)] ''P001'' = Some john_raw
   \<and> update_patient lax0 [(''P001'', john_raw)] ''P001'' null_weight
       = (Inl ValidationError, [(''P001'', john_raw)])"
proof -
  have h2: "''weight'' \<in> set primary_fields" by (simp add: primary_fields_def)
  have h3: "null_weight_body ''weight'' = Some JNull" by (simp add: null_weight_body_def)
  have h4: "map_of [(''P001'', john_raw)] ''P001'' = Some john_raw" by simp
  show ?thesis
    using null_weight_body_validates h2 h3 h4
      C10_explicit_null [OF null_weight_body_validates h2 h3 h4]
    by simp
qed

end
